theory Spec2Isabelle
  imports Main
begin

section \<open>Data model of \<^verbatim>\<open>src/index.ts\<close>\<close>

text \<open>
  The program walks a Google Drive folder tree through the \<^verbatim>\<open>drive.files\<close> client and
  copies every item owned by a target user. The client is an external collaborator: it is
  a parameter of every function below. Everything the program does is recorded as an
  event: each call of the client together with the answer it got, and each console line.
\<close>

datatype error = Error string | GaxiosError string

record owner =
  emailAddress :: string

text \<open>\<^verbatim>\<open>interface FileInfo\<close>; the field \<^verbatim>\<open>id\<close> is \<open>id'\<close> here.\<close>

record FileInfo =
  id' :: string
  name :: string
  mimeType :: string
  owners :: "owner list"

text \<open>Arguments and answers of the four client calls the program makes.\<close>

record get_params =
  get_fileId :: string
  get_fields :: string

record get_data =
  data_owners :: "owner list option"

record list_params =
  list_q :: string
  list_fields :: string
  list_pageToken :: "string option"
  list_pageSize :: "nat option"

record list_data =
  files :: "FileInfo list"
  nextPageToken :: "string option"

record create_params =
  create_name :: string
  create_mimeType :: string
  create_parents :: "string list"
  create_fields :: string

record copy_params =
  copy_fileId :: string
  copy_name :: string
  copy_parents :: "string list"
  copy_fields :: string

record new_data =
  data_id :: string
  data_name :: string

text \<open>
  Two more calls of \<^verbatim>\<open>drive.files\<close> stand for the part of the client that changes or
  removes existing entries; the program has the handle that offers them.
\<close>

record update_params =
  update_fileId :: string
  update_name :: string

datatype event =
    FilesGet get_params "error + get_data"
  | FilesList list_params "error + list_data"
  | FilesCreate create_params "error + new_data"
  | FilesCopy copy_params "error + new_data"
  | FilesUpdate update_params "error + new_data"
  | FilesDelete string "error + unit"
  | ConsoleLog string
  | ConsoleError string error

text \<open>
  The client over a store of states \<open>'s\<close>: each call answers with an error (the promise
  rejects) or a value, and leaves the store in a new state.
\<close>

record 's drive =
  files_get :: "get_params \<Rightarrow> 's \<Rightarrow> (error + get_data) \<times> 's"
  files_list :: "list_params \<Rightarrow> 's \<Rightarrow> (error + list_data) \<times> 's"
  files_create :: "create_params \<Rightarrow> 's \<Rightarrow> (error + new_data) \<times> 's"
  files_copy :: "copy_params \<Rightarrow> 's \<Rightarrow> (error + new_data) \<times> 's"
  files_update :: "update_params \<Rightarrow> 's \<Rightarrow> (error + new_data) \<times> 's"
  files_delete :: "string \<Rightarrow> 's \<Rightarrow> (error + unit) \<times> 's"

section \<open>Asynchronous functions as runs\<close>

text \<open>
  An \<^verbatim>\<open>async\<close> function started in store state \<open>s\<close> gives an outcome, the store state it
  leaves and the events it emitted, in order. \<open>OutOfFuel\<close> is the outcome of a run cut
  off by the fuel bound: the recursion of the program has no bound of its own.
\<close>

datatype 'a outcome = Returned 'a | Threw error | OutOfFuel

type_synonym ('a, 's) run = "'a outcome \<times> 's \<times> event list"

text \<open>\<^verbatim>\<open>const a = await m; k(a)\<close>: a rejected promise skips the continuation.\<close>

definition andThen :: "('a, 's) run \<Rightarrow> ('a \<Rightarrow> 's \<Rightarrow> ('b, 's) run) \<Rightarrow> ('b, 's) run" where
  "andThen m k =
     (case m of
        (Returned a, s, es) \<Rightarrow> (case k a s of (out, s', es') \<Rightarrow> (out, s', es @ es'))
      | (Threw e, s, es) \<Rightarrow> (Threw e, s, es)
      | (OutOfFuel, s, es) \<Rightarrow> (OutOfFuel, s, es))"

text \<open>\<^verbatim>\<open>try { m } catch (error) { h(error) }\<close>\<close>

definition tryCatch :: "('a, 's) run \<Rightarrow> (error \<Rightarrow> 's \<Rightarrow> ('a, 's) run) \<Rightarrow> ('a, 's) run" where
  "tryCatch m h =
     (case m of
        (Threw e, s, es) \<Rightarrow> (case h e s of (out, s', es') \<Rightarrow> (out, s', es @ es'))
      | (Returned a, s, es) \<Rightarrow> (Returned a, s, es)
      | (OutOfFuel, s, es) \<Rightarrow> (OutOfFuel, s, es))"

definition console_log :: "string \<Rightarrow> 's \<Rightarrow> (unit, 's) run" where
  "console_log msg s = (Returned (), s, [ConsoleLog msg])"

definition console_error :: "string \<Rightarrow> error \<Rightarrow> 's \<Rightarrow> (unit, 's) run" where
  "console_error msg e s = (Returned (), s, [ConsoleError msg e])"

definition answer :: "(error + 'a) \<Rightarrow> 'a outcome" where
  "answer r = (case r of Inl e \<Rightarrow> Threw e | Inr a \<Rightarrow> Returned a)"

definition drive_files_get :: "'s drive \<Rightarrow> get_params \<Rightarrow> 's \<Rightarrow> (get_data, 's) run" where
  "drive_files_get drive p s =
     (case files_get drive p s of (r, s') \<Rightarrow> (answer r, s', [FilesGet p r]))"

definition drive_files_list :: "'s drive \<Rightarrow> list_params \<Rightarrow> 's \<Rightarrow> (list_data, 's) run" where
  "drive_files_list drive p s =
     (case files_list drive p s of (r, s') \<Rightarrow> (answer r, s', [FilesList p r]))"

definition drive_files_create :: "'s drive \<Rightarrow> create_params \<Rightarrow> 's \<Rightarrow> (new_data, 's) run" where
  "drive_files_create drive p s =
     (case files_create drive p s of (r, s') \<Rightarrow> (answer r, s', [FilesCreate p r]))"

definition drive_files_copy :: "'s drive \<Rightarrow> copy_params \<Rightarrow> 's \<Rightarrow> (new_data, 's) run" where
  "drive_files_copy drive p s =
     (case files_copy drive p s of (r, s') \<Rightarrow> (answer r, s', [FilesCopy p r]))"

section \<open>The program\<close>

text \<open>The MIME type of a folder, the string both functions compare \<^verbatim>\<open>file.mimeType\<close> with.\<close>

definition FOLDER :: string where
  "FOLDER = ''application/vnd.google-apps.folder''"

text \<open>\<^verbatim>\<open>`'${folderId}' in parents and trashed = false`\<close>\<close>

definition in_parents :: "string \<Rightarrow> string" where
  "in_parents folderId = CHR 0x27 # folderId @ CHR 0x27 # '' in parents and trashed = false''"

text \<open>The condition of \<^verbatim>\<open>while (pageToken)\<close>: undefined and the empty string are falsy.\<close>

definition truthy :: "string option \<Rightarrow> bool" where
  "truthy pageToken = (case pageToken of None \<Rightarrow> False | Some t \<Rightarrow> t \<noteq> [])"

text \<open>\<^verbatim>\<open>file.owners.some(owner => owner.emailAddress === targetUserEmail)\<close>\<close>

definition isOwnedByTarget :: "FileInfo \<Rightarrow> string \<Rightarrow> bool" where
  "isOwnedByTarget file targetUserEmail =
     list_ex (\<lambda>owner. emailAddress owner = targetUserEmail) (owners file)"

subsection \<open>\<^verbatim>\<open>copyFile\<close>\<close>

definition copyFile :: "'s drive \<Rightarrow> string \<Rightarrow> string \<Rightarrow> string \<Rightarrow> 's \<Rightarrow> (unit, 's) run" where
  "copyFile drive fileId parentId fileName s =
     tryCatch
       (andThen
          (drive_files_copy drive
             \<lparr>copy_fileId = fileId, copy_name = fileName, copy_parents = [parentId],
              copy_fields = ''id,name''\<rparr> s)
          (\<lambda>newFile s1.
             console_log (''Copied file: '' @ data_name newFile @ '' (ID: '' @ data_id newFile @ '')'') s1))
       (\<lambda>error s1. console_error (''Error copying file '' @ fileName @ '':'') error s1)"

subsection \<open>\<^verbatim>\<open>copyFolderContents\<close>\<close>

text \<open>
  \<open>copyFolderContents_pages\<close> is the \<^verbatim>\<open>do ... while (pageToken)\<close> loop, entered with the
  current \<^verbatim>\<open>pageToken\<close>; \<open>copyFolderContents_files\<close> is the \<^verbatim>\<open>for (const file of files)\<close>
  loop over what is left of the page. Each request for a page costs one unit of fuel;
  the order below shows that every call ends.
\<close>

function copyFolderContents ::
      "nat \<Rightarrow> 's drive \<Rightarrow> string \<Rightarrow> string \<Rightarrow> string \<Rightarrow> string \<Rightarrow> 's \<Rightarrow> (unit, 's) run"
  and copyFolderContents_pages ::
      "nat \<Rightarrow> 's drive \<Rightarrow> string \<Rightarrow> string \<Rightarrow> string \<Rightarrow> string \<Rightarrow> string option \<Rightarrow> 's
         \<Rightarrow> (unit, 's) run"
  and copyFolderContents_files ::
      "nat \<Rightarrow> 's drive \<Rightarrow> string \<Rightarrow> string \<Rightarrow> string \<Rightarrow> FileInfo list \<Rightarrow> 's \<Rightarrow> (unit, 's) run"
where
  "copyFolderContents n drive sourceFolderId destFolderId targetUserEmail rootOwnerEmail s =
     copyFolderContents_pages n drive sourceFolderId destFolderId targetUserEmail
       rootOwnerEmail None s"
| "copyFolderContents_pages 0 drive sourceFolderId destFolderId targetUserEmail rootOwnerEmail
     pageToken s = (OutOfFuel, s, [])"
| "copyFolderContents_pages (Suc n) drive sourceFolderId destFolderId targetUserEmail
     rootOwnerEmail pageToken s =
     andThen
       (drive_files_list drive
          \<lparr>list_q = in_parents sourceFolderId,
           list_fields = ''nextPageToken, files(id, name, mimeType, owners)'',
           list_pageToken = pageToken, list_pageSize = None\<rparr> s)
       (\<lambda>response s1.
          andThen
            (copyFolderContents_files n drive destFolderId targetUserEmail rootOwnerEmail
               (files response) s1)
            (\<lambda>_ s2.
               if truthy (nextPageToken response)
               then copyFolderContents_pages n drive sourceFolderId destFolderId
                      targetUserEmail rootOwnerEmail (nextPageToken response) s2
               else (Returned (), s2, [])))"
| "copyFolderContents_files n drive destFolderId targetUserEmail rootOwnerEmail [] s =
     (Returned (), s, [])"
| "copyFolderContents_files n drive destFolderId targetUserEmail rootOwnerEmail (file # rest) s =
     andThen
       (if mimeType file = FOLDER
        then andThen
               (drive_files_create drive
                  \<lparr>create_name = name file, create_mimeType = FOLDER,
                   create_parents = [destFolderId], create_fields = ''id,name''\<rparr> s)
               (\<lambda>newFolder s1.
                  copyFolderContents n drive (id' file) (data_id newFolder) targetUserEmail
                    rootOwnerEmail s1)
        else copyFile drive (id' file) destFolderId (name file) s)
       (\<lambda>_ s2.
          copyFolderContents_files n drive destFolderId targetUserEmail rootOwnerEmail rest s2)"
  by pat_completeness auto
termination
  by (relation "inv_image (less_than <*lex*> less_than <*lex*> less_than)
        (\<lambda>x. case x of
           Inl (n, _) \<Rightarrow> (n, 2::nat, 0::nat)
         | Inr (Inl (n, _)) \<Rightarrow> (n, 1, 0)
         | Inr (Inr (n, drive, folderId, t, r, fs, s)) \<Rightarrow> (n, 3, length fs))")
     auto

subsection \<open>\<^verbatim>\<open>processFolder\<close>\<close>

text \<open>The body of \<^verbatim>\<open>if (isOwnedByTarget) { ... }\<close> for one child of the walked folder.\<close>

definition processFolder_owned ::
  "nat \<Rightarrow> 's drive \<Rightarrow> string \<Rightarrow> string \<Rightarrow> string \<Rightarrow> FileInfo \<Rightarrow> 's \<Rightarrow> (unit, 's) run" where
  "processFolder_owned n drive folderId targetUserEmail rootOwnerEmail file s =
     andThen
       (console_log
          (''Found item owned by target user: '' @ name file @ '' (ID: '' @ id' file @ '')'') s)
       (\<lambda>_ s0.
          if mimeType file = FOLDER
          then andThen
                 (drive_files_create drive
                    \<lparr>create_name = name file, create_mimeType = FOLDER,
                     create_parents = [folderId], create_fields = ''id,name''\<rparr> s0)
                 (\<lambda>newFolder s1.
                    andThen
                      (console_log
                         (''Created new folder: '' @ data_name newFolder @ '' (ID: ''
                            @ data_id newFolder @ '')'') s1)
                      (\<lambda>_ s2.
                         copyFolderContents n drive (id' file) (data_id newFolder)
                           targetUserEmail rootOwnerEmail s2))
          else copyFile drive (id' file) folderId (name file) s0)"

function processFolder ::
      "nat \<Rightarrow> 's drive \<Rightarrow> string \<Rightarrow> string \<Rightarrow> string \<Rightarrow> 's \<Rightarrow> (unit, 's) run"
  and processFolder_pages ::
      "nat \<Rightarrow> 's drive \<Rightarrow> string \<Rightarrow> string \<Rightarrow> string \<Rightarrow> string option \<Rightarrow> 's \<Rightarrow> (unit, 's) run"
  and processFolder_files ::
      "nat \<Rightarrow> 's drive \<Rightarrow> string \<Rightarrow> string \<Rightarrow> string \<Rightarrow> FileInfo list \<Rightarrow> 's \<Rightarrow> (unit, 's) run"
where
  "processFolder n drive folderId targetUserEmail rootOwnerEmail s =
     andThen (console_log (''Processing folder with ID: '' @ folderId) s)
       (\<lambda>_ s0. processFolder_pages n drive folderId targetUserEmail rootOwnerEmail None s0)"
| "processFolder_pages 0 drive folderId targetUserEmail rootOwnerEmail pageToken s =
     (OutOfFuel, s, [])"
| "processFolder_pages (Suc n) drive folderId targetUserEmail rootOwnerEmail pageToken s =
     andThen
       (drive_files_list drive
          \<lparr>list_q = in_parents folderId,
           list_fields = ''nextPageToken, files(id, name, mimeType, owners)'',
           list_pageToken = pageToken, list_pageSize = Some 1000\<rparr> s)
       (\<lambda>response s1.
          andThen
            (processFolder_files n drive folderId targetUserEmail rootOwnerEmail
               (files response) s1)
            (\<lambda>_ s2.
               if truthy (nextPageToken response)
               then processFolder_pages n drive folderId targetUserEmail rootOwnerEmail
                      (nextPageToken response) s2
               else (Returned (), s2, [])))"
| "processFolder_files n drive folderId targetUserEmail rootOwnerEmail [] s =
     (Returned (), s, [])"
| "processFolder_files n drive folderId targetUserEmail rootOwnerEmail (file # rest) s =
     andThen
       (if isOwnedByTarget file targetUserEmail
        then processFolder_owned n drive folderId targetUserEmail rootOwnerEmail file s
        else (Returned (), s, []))
       (\<lambda>_ s1.
          andThen
            (if mimeType file = FOLDER
             then processFolder n drive (id' file) targetUserEmail rootOwnerEmail s1
             else (Returned (), s1, []))
            (\<lambda>_ s2.
               processFolder_files n drive folderId targetUserEmail rootOwnerEmail rest s2))"
  by pat_completeness auto
termination
  by (relation "inv_image (less_than <*lex*> less_than <*lex*> less_than)
        (\<lambda>x. case x of
           Inl (n, _) \<Rightarrow> (n, 2::nat, 0::nat)
         | Inr (Inl (n, _)) \<Rightarrow> (n, 1, 0)
         | Inr (Inr (n, drive, folderId, t, r, fs, s)) \<Rightarrow> (n, 3, length fs))")
     auto

subsection \<open>\<^verbatim>\<open>main\<close>\<close>

text \<open>
  \<open>main_try\<close> is the \<^verbatim>\<open>try\<close> block of \<^verbatim>\<open>main\<close>. The credential flow and the two prompts
  are outside the program's core: \<open>authorize\<close> is what \<^verbatim>\<open>await authorize()\<close> gave (an error
  when it rejected), \<open>rootFolderId\<close> and \<open>targetUserEmail\<close> are the two answers typed in.
  The test \<^verbatim>\<open>!owners || owners.length === 0\<close> is the first two cases; \<^verbatim>\<open>owners[0]\<close> is the
  head in the third.
\<close>

definition main_try ::
  "nat \<Rightarrow> 's drive \<Rightarrow> error + unit \<Rightarrow> string \<Rightarrow> string \<Rightarrow> 's \<Rightarrow> (unit, 's) run" where
  "main_try n drive authorize rootFolderId targetUserEmail s =
     andThen (answer authorize, s, [])
       (\<lambda>_ s0.
          andThen
            (drive_files_get drive \<lparr>get_fileId = rootFolderId, get_fields = ''owners''\<rparr> s0)
            (\<lambda>rootFolder s1.
               case data_owners rootFolder of
                 None \<Rightarrow> (Threw (Error ''Could not determine the root folder owner''), s1, [])
               | Some [] \<Rightarrow> (Threw (Error ''Could not determine the root folder owner''), s1, [])
               | Some (first # _) \<Rightarrow>
                   andThen (console_log (''Root folder owner: '' @ emailAddress first) s1)
                     (\<lambda>_ s2.
                        andThen
                          (console_log (''Searching for files owned by: '' @ targetUserEmail) s2)
                          (\<lambda>_ s3.
                             andThen
                               (processFolder n drive rootFolderId targetUserEmail
                                  (emailAddress first) s3)
                               (\<lambda>_ s4. console_log ''Process completed successfully!'' s4)))))"

definition main ::
  "nat \<Rightarrow> 's drive \<Rightarrow> error + unit \<Rightarrow> string \<Rightarrow> string \<Rightarrow> 's \<Rightarrow> (unit, 's) run" where
  "main n drive authorize rootFolderId targetUserEmail s =
     tryCatch (main_try n drive authorize rootFolderId targetUserEmail s)
       (\<lambda>error s1. console_error ''Error:'' error s1)"


section \<open>A scripted client\<close>

text \<open>
  A client for concrete runs: its state is the list of answers still to give, one per
  call, whatever the arguments. A call that finds no answer of its kind is rejected.
\<close>

datatype reply =
    GetReply "error + get_data"
  | ListReply "error + list_data"
  | NewReply "error + new_data"

definition scripted :: "reply list drive" where
  "scripted =
     \<lparr>files_get = (\<lambda>p s. case s of GetReply r # rest \<Rightarrow> (r, rest)
                              | _ \<Rightarrow> (Inl (GaxiosError ''no reply''), s)),
      files_list = (\<lambda>p s. case s of ListReply r # rest \<Rightarrow> (r, rest)
                              | _ \<Rightarrow> (Inl (GaxiosError ''no reply''), s)),
      files_create = (\<lambda>p s. case s of NewReply r # rest \<Rightarrow> (r, rest)
                              | _ \<Rightarrow> (Inl (GaxiosError ''no reply''), s)),
      files_copy = (\<lambda>p s. case s of NewReply r # rest \<Rightarrow> (r, rest)
                              | _ \<Rightarrow> (Inl (GaxiosError ''no reply''), s)),
      files_update = (\<lambda>p s. (Inl (GaxiosError ''no reply''), s)),
      files_delete = (\<lambda>p s. (Inl (GaxiosError ''no reply''), s))\<rparr>"

text \<open>
  A client over a store in memory, for concrete runs with a real tree: the state is the
  list of entries, each with the id of its parent, in the order they were made. A listing
  gives all children in one page; a new entry is owned by the user \<open>me\<close> of the client
  and gets an id no entry made before it has.
\<close>

definition fresh_id :: "(string \<times> FileInfo) list \<Rightarrow> string" where
  "fresh_id s = ''new'' @ replicate (length s) CHR ''+''"

definition in_memory :: "string \<Rightarrow> (string \<times> FileInfo) list drive" where
  "in_memory me =
     \<lparr>files_get = (\<lambda>p s. case filter (\<lambda>(parent, f). id' f = get_fileId p) s of
                              [] \<Rightarrow> (Inl (GaxiosError ''File not found''), s)
                            | (parent, f) # _ \<Rightarrow> (Inr \<lparr>data_owners = Some (owners f)\<rparr>, s)),
      files_list = (\<lambda>p s.
         (Inr \<lparr>files = map snd (filter (\<lambda>(parent, f). in_parents parent = list_q p) s),
               nextPageToken = None\<rparr>, s)),
      files_create = (\<lambda>p s.
         (Inr \<lparr>data_id = fresh_id s, data_name = create_name p\<rparr>,
          s @ [(hd (create_parents p),
                \<lparr>id' = fresh_id s, name = create_name p, mimeType = create_mimeType p,
                 owners = [\<lparr>emailAddress = me\<rparr>]\<rparr>)])),
      files_copy = (\<lambda>p s. case filter (\<lambda>(parent, f). id' f = copy_fileId p) s of
                              [] \<Rightarrow> (Inl (GaxiosError ''File not found''), s)
                            | (parent, f) # _ \<Rightarrow>
         (Inr \<lparr>data_id = fresh_id s, data_name = copy_name p\<rparr>,
          s @ [(hd (copy_parents p),
                \<lparr>id' = fresh_id s, name = copy_name p, mimeType = mimeType f,
                 owners = [\<lparr>emailAddress = me\<rparr>]\<rparr>)])),
      files_update = (\<lambda>p s. case filter (\<lambda>(parent, f). id' f = update_fileId p) s of
                              [] \<Rightarrow> (Inl (GaxiosError ''File not found''), s)
                            | (parent, f) # _ \<Rightarrow>
         (Inr \<lparr>data_id = id' f, data_name = update_name p\<rparr>,
          map (\<lambda>(parent, g). (parent, if id' g = update_fileId p
                                       then g\<lparr>name := update_name p\<rparr> else g)) s)),
      files_delete = (\<lambda>fileId s. (Inr (), filter (\<lambda>(parent, f). id' f \<noteq> fileId) s))\<rparr>"

text \<open>
  The tree of the examples: the root \<^verbatim>\<open>R\<close> of \<^verbatim>\<open>alice@x.com\<close> holds the folder \<^verbatim>\<open>A\<close> of
  \<^verbatim>\<open>bob@x.com\<close>, with the file \<^verbatim>\<open>f1\<close> of \<^verbatim>\<open>bob@x.com\<close> in it, and the file \<^verbatim>\<open>g1\<close> of
  \<^verbatim>\<open>alice@x.com\<close>.
\<close>

definition alice :: owner where "alice = \<lparr>emailAddress = ''alice@x.com''\<rparr>"

definition bob :: owner where "bob = \<lparr>emailAddress = ''bob@x.com''\<rparr>"

definition folder_R :: FileInfo where
  "folder_R = \<lparr>id' = ''R'', name = ''R'', mimeType = FOLDER, owners = [alice]\<rparr>"

definition folder_A :: FileInfo where
  "folder_A = \<lparr>id' = ''A'', name = ''A'', mimeType = FOLDER, owners = [bob]\<rparr>"

definition file_f1 :: FileInfo where
  "file_f1 = \<lparr>id' = ''F1'', name = ''f1'', mimeType = ''text/plain'', owners = [bob]\<rparr>"

definition file_g1 :: FileInfo where
  "file_g1 = \<lparr>id' = ''G1'', name = ''g1'', mimeType = ''text/plain'', owners = [alice]\<rparr>"

definition example_tree :: "(string \<times> FileInfo) list" where
  "example_tree = [([], folder_R), (''R'', folder_A), (''A'', file_f1), (''R'', file_g1)]"

section \<open>Reading a run\<close>


abbreviation state_of :: "('a, 's) run \<Rightarrow> 's" where
  "state_of m \<equiv> fst (snd m)"

abbreviation events :: "('a, 's) run \<Rightarrow> event list" where
  "events m \<equiv> snd (snd m)"



text \<open>A client call that changes or removes an existing entry.\<close>

fun mutates :: "event \<Rightarrow> bool" where
  "mutates (FilesUpdate p r) = True"
| "mutates (FilesDelete p r) = True"
| "mutates _ = False"

text \<open>The children a listing answered with; those of the walk are asked for by 1000.\<close>

fun listed :: "event \<Rightarrow> FileInfo list" where
  "listed (FilesList p (Inr response)) = files response"
| "listed _ = []"

fun walk_listed :: "event \<Rightarrow> FileInfo list" where
  "walk_listed (FilesList p (Inr response)) =
     (if list_pageSize p = Some 1000 then files response else [])"
| "walk_listed _ = []"

definition items_listed :: "event list \<Rightarrow> nat" where
  "items_listed evs = sum_list (map (\<lambda>e. length (listed e)) evs)"


text \<open>The walk went into a folder: it announced it and asked for its first page.\<close>

definition entered :: "string \<Rightarrow> event list \<Rightarrow> bool" where
  "entered folderId evs \<longleftrightarrow>
     ConsoleLog (''Processing folder with ID: '' @ folderId) \<in> set evs
     \<and> (\<exists>r. FilesList \<lparr>list_q = in_parents folderId,
                       list_fields = ''nextPageToken, files(id, name, mimeType, owners)'',
                       list_pageToken = None, list_pageSize = Some 1000\<rparr> r \<in> set evs)"


text \<open>Every folder among the children the walk was given has been gone into.\<close>

definition descended :: "event list \<Rightarrow> bool" where
  "descended evs \<longleftrightarrow>
     (\<forall>e\<in>set evs. \<forall>f\<in>set (walk_listed e). mimeType f = FOLDER \<longrightarrow> entered (id' f) evs)"


text \<open>
  The pages a listing announced (the folder query and page size of the request, with the
  continuation token of the answer, when there is one to continue with) and the pages a
  listing asked for by a token.
\<close>

fun page_announced :: "event \<Rightarrow> (string \<times> nat option \<times> string option) list" where
  "page_announced (FilesList p (Inr response)) =
     (if truthy (nextPageToken response)
      then [(list_q p, list_pageSize p, nextPageToken response)] else [])"
| "page_announced _ = []"

fun page_requested :: "event \<Rightarrow> (string \<times> nat option \<times> string option) list" where
  "page_requested (FilesList p r) =
     (if list_pageToken p \<noteq> None then [(list_q p, list_pageSize p, list_pageToken p)] else [])"
| "page_requested _ = []"

definition pages_announced :: "event list \<Rightarrow> (string \<times> nat option \<times> string option) list" where
  "pages_announced evs = concat (map page_announced evs)"

definition pages_requested :: "event list \<Rightarrow> (string \<times> nat option \<times> string option) list" where
  "pages_requested evs = concat (map page_requested evs)"

text \<open>
  A view \<open>entries\<close> of the store only grows under the four calls the program is written
  with; nothing is assumed of the calls that change or remove.
\<close>

definition only_adds :: "'s drive \<Rightarrow> ('s \<Rightarrow> 'e set) \<Rightarrow> bool" where
  "only_adds drive entries \<longleftrightarrow>
     (\<forall>p s. entries s \<subseteq> entries (snd (files_get drive p s)))
     \<and> (\<forall>p s. entries s \<subseteq> entries (snd (files_list drive p s)))
     \<and> (\<forall>p s. entries s \<subseteq> entries (snd (files_create drive p s)))
     \<and> (\<forall>p s. entries s \<subseteq> entries (snd (files_copy drive p s)))"

text \<open>A property of the store that the listing, creation and copy calls keep.\<close>

definition kept :: "'s drive \<Rightarrow> ('s \<Rightarrow> bool) \<Rightarrow> bool" where
  "kept drive I \<longleftrightarrow>
     (\<forall>p s. I s \<longrightarrow> I (snd (files_list drive p s)))
     \<and> (\<forall>p s. I s \<longrightarrow> I (snd (files_create drive p s)))
     \<and> (\<forall>p s. I s \<longrightarrow> I (snd (files_copy drive p s)))"

section \<open>Facts about runs\<close>

lemma andThen_Returned [simp]:
  "andThen (Returned a, s, es) k = (case k a s of (out, s', es') \<Rightarrow> (out, s', es @ es'))"
  by (simp add: andThen_def)

lemma andThen_Threw [simp]: "andThen (Threw e, s, es) k = (Threw e, s, es)"
  by (simp add: andThen_def)

lemma andThen_OutOfFuel [simp]: "andThen (OutOfFuel, s, es) k = (OutOfFuel, s, es)"
  by (simp add: andThen_def)


lemma andThen_cong:
  "m = m' \<Longrightarrow> (\<And>a s. k a s = k' a s) \<Longrightarrow> andThen m k = andThen m' k'"
  by (simp add: andThen_def split: prod.splits outcome.splits)

lemma tryCatch_simps [simp]:
  "tryCatch (Returned a, s, es) h = (Returned a, s, es)"
  "tryCatch (Threw e, s, es) h = (case h e s of (out, s', es') \<Rightarrow> (out, s', es @ es'))"
  "tryCatch (OutOfFuel, s, es) h = (OutOfFuel, s, es)"
  by (simp_all add: tryCatch_def)

section \<open>The ownership match\<close>

text \<open>
  C6. The match the walk computes for an entry and a target identity is true exactly when
  the target is, character for character, one of the addresses of the entry's owner list.
  Nothing is normalised: an entry without owners never matches, and an owner
  \<^verbatim>\<open>Bob@x.com\<close> is not matched by the target \<^verbatim>\<open>bob@x.com\<close>.
\<close>

theorem isOwnedByTarget_exact:
  "(isOwnedByTarget f targetUserEmail
      \<longleftrightarrow> targetUserEmail \<in> set (map emailAddress (owners f)))
   \<and> \<not> isOwnedByTarget (f\<lparr>owners := []\<rparr>) targetUserEmail
   \<and> \<not> isOwnedByTarget (f\<lparr>owners := [\<lparr>emailAddress = ''Bob@x.com''\<rparr>]\<rparr>) ''bob@x.com''"
  by (auto simp: isOwnedByTarget_def list_ex_iff)

section \<open>The root owner is only carried along\<close>

lemma copyFolderContents_root:
  "copyFolderContents n d a b t r s = copyFolderContents n d a b t r' s"
  "copyFolderContents_pages n d a b t r tok s = copyFolderContents_pages n d a b t r' tok s"
  "copyFolderContents_files n d b t r fs s = copyFolderContents_files n d b t r' fs s"
proof (induction n d a b t r s and n d a b t r tok s and n d b t r fs s
      rule: copyFolderContents_copyFolderContents_pages_copyFolderContents_files.induct)
  case (5 n drive destFolderId targetUserEmail rootOwnerEmail f rest s)
  then show ?case
    by (auto simp del: copyFolderContents.simps intro!: andThen_cong)
qed (auto intro!: andThen_cong)

lemma processFolder_owned_root:
  "processFolder_owned n d F t r f s = processFolder_owned n d F t r' f s"
  by (auto simp: processFolder_owned_def intro!: andThen_cong copyFolderContents_root(1))

lemma processFolder_root:
  "processFolder n d F t r s = processFolder n d F t r' s"
  "processFolder_pages n d F t r tok s = processFolder_pages n d F t r' tok s"
  "processFolder_files n d F t r fs s = processFolder_files n d F t r' fs s"
proof (induction n d F t r s and n d F t r tok s and n d F t r fs s
      rule: processFolder_processFolder_pages_processFolder_files.induct)
  case (5 n drive folderId targetUserEmail rootOwnerEmail f rest s)
  then show ?case
    by (auto simp del: processFolder.simps intro!: andThen_cong processFolder_owned_root)
qed (auto intro!: andThen_cong)

text \<open>
  C10. Two runs of the walk (and two runs of the subtree copy) that differ only in the
  root owner's identity, from the same store state with the same client, are the same
  run: the same outcome, the same final store state and the same events, so the same
  client calls with the same arguments in the same order.
\<close>

theorem rootOwnerEmail_irrelevant:
  "processFolder n drive folderId targetUserEmail rootOwnerEmail s =
     processFolder n drive folderId targetUserEmail rootOwnerEmail' s
   \<and> copyFolderContents n drive sourceFolderId destFolderId targetUserEmail rootOwnerEmail s =
     copyFolderContents n drive sourceFolderId destFolderId targetUserEmail rootOwnerEmail' s"
  by (rule conjI) (rule processFolder_root(1), rule copyFolderContents_root(1))

section \<open>What a run can emit and what it can do to the store\<close>

lemma events_andThen:
  "list_all P (events m) \<Longrightarrow> (\<And>a s. list_all P (events (k a s)))
     \<Longrightarrow> list_all P (events (andThen m k))"
  by (auto simp: andThen_def list_all_iff split: prod.splits outcome.splits) (metis snd_conv)

lemma events_tryCatch:
  "list_all P (events m) \<Longrightarrow> (\<And>a s. list_all P (events (h a s)))
     \<Longrightarrow> list_all P (events (tryCatch m h))"
  by (auto simp: tryCatch_def list_all_iff split: prod.splits outcome.splits) (metis snd_conv)

lemma events_if:
  "(c \<Longrightarrow> list_all P (events x)) \<Longrightarrow> (\<not> c \<Longrightarrow> list_all P (events y))
     \<Longrightarrow> list_all P (events (if c then x else y))"
  by simp

lemma state_andThen:
  "I (state_of m) \<Longrightarrow> (\<And>a s. I s \<Longrightarrow> I (state_of (k a s))) \<Longrightarrow> I (state_of (andThen m k))"
  by (auto simp: andThen_def split: prod.splits outcome.splits) (metis fst_conv snd_conv)

lemma state_tryCatch:
  "I (state_of m) \<Longrightarrow> (\<And>a s. I s \<Longrightarrow> I (state_of (h a s))) \<Longrightarrow> I (state_of (tryCatch m h))"
  by (auto simp: tryCatch_def split: prod.splits outcome.splits) (metis fst_conv snd_conv)

lemma state_if:
  "(c \<Longrightarrow> I (state_of x)) \<Longrightarrow> (\<not> c \<Longrightarrow> I (state_of y)) \<Longrightarrow> I (state_of (if c then x else y))"
  by simp

lemma events_call [simp]:
  "events (drive_files_get d pg s) = [FilesGet pg (fst (files_get d pg s))]"
  "events (drive_files_list d pl s) = [FilesList pl (fst (files_list d pl s))]"
  "events (drive_files_create d pc s) = [FilesCreate pc (fst (files_create d pc s))]"
  "events (drive_files_copy d pd s) = [FilesCopy pd (fst (files_copy d pd s))]"
  by (simp_all add: drive_files_get_def drive_files_list_def drive_files_create_def
        drive_files_copy_def split: prod.splits)

lemma state_call [simp]:
  "state_of (drive_files_get d pg s) = snd (files_get d pg s)"
  "state_of (drive_files_list d pl s) = snd (files_list d pl s)"
  "state_of (drive_files_create d pc s) = snd (files_create d pc s)"
  "state_of (drive_files_copy d pd s) = snd (files_copy d pd s)"
  by (simp_all add: drive_files_get_def drive_files_list_def drive_files_create_def
        drive_files_copy_def split: prod.splits)

lemma console_simps [simp]:
  "events (console_log m s) = [ConsoleLog m]" "state_of (console_log m s) = s"
  "events (console_error m e s) = [ConsoleError m e]" "state_of (console_error m e s) = s"
  by (simp_all add: console_log_def console_error_def)

text \<open>
  Whatever holds of every listing, creation and copy, of every line logged but the last
  line of \<^verbatim>\<open>main\<close>, and of every error line but that of \<^verbatim>\<open>main\<close>, holds of every event
  of the subtree copy and of the walk. The listings of the subtree copy name no page size.
\<close>

lemma copyFile_events:
  assumes "\<And>p r. P (FilesCopy p r)"
    and "\<And>m. m \<noteq> ''Process completed successfully!'' \<Longrightarrow> P (ConsoleLog m)"
    and "\<And>m e. m \<noteq> ''Error:'' \<Longrightarrow> P (ConsoleError m e)"
  shows "list_all P (events (copyFile d fileId parentId fileName s))"
  unfolding copyFile_def
  by (intro events_tryCatch events_andThen) (simp_all add: assms)

lemma copyFolderContents_events:
  assumes "\<And>p r. list_pageSize p = None \<Longrightarrow> P (FilesList p r)" and "\<And>p r. P (FilesCreate p r)"
    and "\<And>p r. P (FilesCopy p r)"
    and "\<And>m. m \<noteq> ''Process completed successfully!'' \<Longrightarrow> P (ConsoleLog m)"
    and "\<And>m e. m \<noteq> ''Error:'' \<Longrightarrow> P (ConsoleError m e)"
  shows "list_all P (events (copyFolderContents n d a b t r s))"
    and "list_all P (events (copyFolderContents_pages n d a b t r tok s))"
    and "list_all P (events (copyFolderContents_files n d b t r fs s))"
proof (induction n d a b t r s and n d a b t r tok s and n d b t r fs s
      rule: copyFolderContents_copyFolderContents_pages_copyFolderContents_files.induct)
  case (1 n drive sourceFolderId destFolderId targetUserEmail rootOwnerEmail s)
  then show ?case by simp
next
  case (2 drive sourceFolderId destFolderId targetUserEmail rootOwnerEmail pageToken s)
  show ?case by simp
next
  case (3 n drive sourceFolderId destFolderId targetUserEmail rootOwnerEmail pageToken s)
  show ?case
    unfolding copyFolderContents_pages.simps
    by (intro events_andThen events_if "3.IH") (simp_all add: assms(1))
next
  case (4 n drive destFolderId targetUserEmail rootOwnerEmail s)
  show ?case by simp
next
  case (5 n drive destFolderId targetUserEmail rootOwnerEmail f rest s)
  show ?case
    unfolding copyFolderContents_files.simps
    by (intro events_andThen events_if "5.IH" copyFile_events assms(3,4,5))
       (simp_all add: assms(2))
qed

lemma processFolder_owned_events:
  assumes "\<And>p r. list_pageSize p = None \<Longrightarrow> P (FilesList p r)" and "\<And>p r. P (FilesCreate p r)"
    and "\<And>p r. P (FilesCopy p r)"
    and "\<And>m. m \<noteq> ''Process completed successfully!'' \<Longrightarrow> P (ConsoleLog m)"
    and "\<And>m e. m \<noteq> ''Error:'' \<Longrightarrow> P (ConsoleError m e)"
  shows "list_all P (events (processFolder_owned n d F t r f s))"
  unfolding processFolder_owned_def
  by (intro events_andThen events_if copyFile_events copyFolderContents_events(1) assms)
     (simp_all add: assms(2,4))

lemma processFolder_events:
  assumes "\<And>p r. P (FilesList p r)" and "\<And>p r. P (FilesCreate p r)"
    and "\<And>p r. P (FilesCopy p r)"
    and "\<And>m. m \<noteq> ''Process completed successfully!'' \<Longrightarrow> P (ConsoleLog m)"
    and "\<And>m e. m \<noteq> ''Error:'' \<Longrightarrow> P (ConsoleError m e)"
  shows "list_all P (events (processFolder n d F t r s))"
    and "list_all P (events (processFolder_pages n d F t r tok s))"
    and "list_all P (events (processFolder_files n d F t r fs s))"
proof (induction n d F t r s and n d F t r tok s and n d F t r fs s
      rule: processFolder_processFolder_pages_processFolder_files.induct)
  case (1 n drive folderId targetUserEmail rootOwnerEmail s)
  show ?case
    unfolding processFolder.simps
    by (intro events_andThen "1.IH") (simp_all add: assms(4))
next
  case (2 drive folderId targetUserEmail rootOwnerEmail pageToken s)
  show ?case by simp
next
  case (3 n drive folderId targetUserEmail rootOwnerEmail pageToken s)
  show ?case
    unfolding processFolder_pages.simps
    by (intro events_andThen events_if "3.IH") (simp_all add: assms(1))
next
  case (4 n drive folderId targetUserEmail rootOwnerEmail s)
  show ?case by simp
next
  case (5 n drive folderId targetUserEmail rootOwnerEmail f rest s)
  show ?case
    unfolding processFolder_files.simps
    by (intro events_andThen events_if "5.IH" processFolder_owned_events assms) simp_all
qed

text \<open>
  A property of the store that the listing, creation and copy calls keep is kept by the
  subtree copy and by the walk.
\<close>

lemma kept_call:
  "kept d I \<Longrightarrow> I s \<Longrightarrow> I (snd (files_list d pl s))"
  "kept d I \<Longrightarrow> I s \<Longrightarrow> I (snd (files_create d pc s))"
  "kept d I \<Longrightarrow> I s \<Longrightarrow> I (snd (files_copy d pd s))"
  by (simp_all add: kept_def)

lemma copyFile_state:
  "kept d I \<Longrightarrow> I s \<Longrightarrow> I (state_of (copyFile d fileId parentId fileName s))"
  unfolding copyFile_def
  by (intro state_tryCatch [where I = I] state_andThen [where I = I])
     (simp_all add: kept_call)

lemma copyFolderContents_state:
  "kept d I \<Longrightarrow> I s \<Longrightarrow> I (state_of (copyFolderContents n d a b t r s))"
  "kept d I \<Longrightarrow> I s \<Longrightarrow> I (state_of (copyFolderContents_pages n d a b t r tok s))"
  "kept d I \<Longrightarrow> I s \<Longrightarrow> I (state_of (copyFolderContents_files n d b t r fs s))"
proof (induction n d a b t r s and n d a b t r tok s and n d b t r fs s
      rule: copyFolderContents_copyFolderContents_pages_copyFolderContents_files.induct)
  case (1 n drive sourceFolderId destFolderId targetUserEmail rootOwnerEmail s)
  then show ?case by simp
next
  case (2 drive sourceFolderId destFolderId targetUserEmail rootOwnerEmail pageToken s)
  then show ?case by simp
next
  case (3 n drive sourceFolderId destFolderId targetUserEmail rootOwnerEmail pageToken s)
  show ?case
    unfolding copyFolderContents_pages.simps
    by (intro state_andThen [where I = I] state_if [where I = I] "3.IH" "3.prems")
       (simp_all add: kept_call "3.prems")
next
  case (4 n drive destFolderId targetUserEmail rootOwnerEmail s)
  then show ?case by simp
next
  case (5 n drive destFolderId targetUserEmail rootOwnerEmail f rest s)
  show ?case
    unfolding copyFolderContents_files.simps
    by (intro state_andThen [where I = I] state_if [where I = I] "5.IH"
          copyFile_state [where I = I] "5.prems")
       (simp_all add: kept_call "5.prems")
qed

lemma processFolder_owned_state:
  "kept d I \<Longrightarrow> I s \<Longrightarrow> I (state_of (processFolder_owned n d F t r f s))"
  unfolding processFolder_owned_def
  by (intro state_andThen [where I = I] state_if [where I = I] copyFile_state [where I = I]
        copyFolderContents_state(1) [where I = I])
     (simp_all add: kept_call)

lemma processFolder_state:
  "kept d I \<Longrightarrow> I s \<Longrightarrow> I (state_of (processFolder n d F t r s))"
  "kept d I \<Longrightarrow> I s \<Longrightarrow> I (state_of (processFolder_pages n d F t r tok s))"
  "kept d I \<Longrightarrow> I s \<Longrightarrow> I (state_of (processFolder_files n d F t r fs s))"
proof (induction n d F t r s and n d F t r tok s and n d F t r fs s
      rule: processFolder_processFolder_pages_processFolder_files.induct)
  case (1 n drive folderId targetUserEmail rootOwnerEmail s)
  show ?case
    unfolding processFolder.simps
    by (intro state_andThen [where I = I] "1.IH" "1.prems") (simp_all add: "1.prems")
next
  case (2 drive folderId targetUserEmail rootOwnerEmail pageToken s)
  then show ?case by simp
next
  case (3 n drive folderId targetUserEmail rootOwnerEmail pageToken s)
  show ?case
    unfolding processFolder_pages.simps
    by (intro state_andThen [where I = I] state_if [where I = I] "3.IH" "3.prems")
       (simp_all add: kept_call "3.prems")
next
  case (4 n drive folderId targetUserEmail rootOwnerEmail s)
  then show ?case by simp
next
  case (5 n drive folderId targetUserEmail rootOwnerEmail f rest s)
  show ?case
    unfolding processFolder_files.simps
    by (intro state_andThen [where I = I] state_if [where I = I] "5.IH"
          processFolder_owned_state [where I = I] "5.prems")
       (simp_all add: "5.prems")
qed

section \<open>Concrete runs\<close>

lemma scripted_simps [simp]:
  "files_get scripted pg (GetReply g # rest) = (g, rest)"
  "files_list scripted pl (ListReply l # rest) = (l, rest)"
  "files_create scripted pc (NewReply r # rest) = (r, rest)"
  "files_copy scripted pd (NewReply r # rest) = (r, rest)"
  by (simp_all add: scripted_def)

lemmas run_defs = drive_files_get_def drive_files_list_def drive_files_create_def
  drive_files_copy_def answer_def console_log_def console_error_def copyFile_def
  processFolder_owned_def isOwnedByTarget_def truthy_def

lemmas example_defs = example_tree_def folder_R_def folder_A_def file_f1_def file_g1_def
  alice_def bob_def FOLDER_def in_parents_def fresh_id_def

lemma in_memory_simps [simp]:
  "files_list (in_memory me) pl s =
     (Inr \<lparr>files = map snd (filter (\<lambda>(parent, f). in_parents parent = list_q pl) s),
           nextPageToken = None\<rparr>, s)"
  "files_create (in_memory me) pc s =
     (Inr \<lparr>data_id = fresh_id s, data_name = create_name pc\<rparr>,
      s @ [(hd (create_parents pc),
            \<lparr>id' = fresh_id s, name = create_name pc, mimeType = create_mimeType pc,
             owners = [\<lparr>emailAddress = me\<rparr>]\<rparr>)])"
  "files_copy (in_memory me) pd s =
     (case filter (\<lambda>(parent, f). id' f = copy_fileId pd) s of
        [] \<Rightarrow> (Inl (GaxiosError ''File not found''), s)
      | (parent, f) # _ \<Rightarrow>
         (Inr \<lparr>data_id = fresh_id s, data_name = copy_name pd\<rparr>,
          s @ [(hd (copy_parents pd),
                \<lparr>id' = fresh_id s, name = copy_name pd, mimeType = mimeType f,
                 owners = [\<lparr>emailAddress = me\<rparr>]\<rparr>)]))"
  "files_get (in_memory me) pg s =
     (case filter (\<lambda>(parent, f). id' f = get_fileId pg) s of
        [] \<Rightarrow> (Inl (GaxiosError ''File not found''), s)
      | (parent, f) # _ \<Rightarrow> (Inr \<lparr>data_owners = Some (owners f)\<rparr>, s))"
  by (simp_all add: in_memory_def)

text \<open>The walk of the example tree for the target \<^verbatim>\<open>bob@x.com\<close>.\<close>

lemma example_walk:
  "processFolder 2 (in_memory ''me'') ''R'' ''bob@x.com'' ''alice@x.com'' example_tree =
     (Returned (),
      example_tree @
      [(''R'', \<lparr>id' = ''new++++'', name = ''A'', mimeType = FOLDER,
                owners = [\<lparr>emailAddress = ''me''\<rparr>]\<rparr>),
       (''new++++'', \<lparr>id' = ''new+++++'', name = ''f1'', mimeType = ''text/plain'',
                owners = [\<lparr>emailAddress = ''me''\<rparr>]\<rparr>),
       (''A'', \<lparr>id' = ''new++++++'', name = ''f1'', mimeType = ''text/plain'',
                owners = [\<lparr>emailAddress = ''me''\<rparr>]\<rparr>)],
      [ConsoleLog ''Processing folder with ID: R'',
       FilesList \<lparr>list_q = in_parents ''R'',
                  list_fields = ''nextPageToken, files(id, name, mimeType, owners)'',
                  list_pageToken = None, list_pageSize = Some 1000\<rparr>
         (Inr \<lparr>files = [folder_A, file_g1], nextPageToken = None\<rparr>),
       ConsoleLog ''Found item owned by target user: A (ID: A)'',
       FilesCreate \<lparr>create_name = ''A'', create_mimeType = FOLDER, create_parents = [''R''],
                    create_fields = ''id,name''\<rparr>
         (Inr \<lparr>data_id = ''new++++'', data_name = ''A''\<rparr>),
       ConsoleLog ''Created new folder: A (ID: new++++)'',
       FilesList \<lparr>list_q = in_parents ''A'',
                  list_fields = ''nextPageToken, files(id, name, mimeType, owners)'',
                  list_pageToken = None, list_pageSize = None\<rparr>
         (Inr \<lparr>files = [file_f1], nextPageToken = None\<rparr>),
       FilesCopy \<lparr>copy_fileId = ''F1'', copy_name = ''f1'', copy_parents = [''new++++''],
                  copy_fields = ''id,name''\<rparr>
         (Inr \<lparr>data_id = ''new+++++'', data_name = ''f1''\<rparr>),
       ConsoleLog ''Copied file: f1 (ID: new+++++)'',
       ConsoleLog ''Processing folder with ID: A'',
       FilesList \<lparr>list_q = in_parents ''A'',
                  list_fields = ''nextPageToken, files(id, name, mimeType, owners)'',
                  list_pageToken = None, list_pageSize = Some 1000\<rparr>
         (Inr \<lparr>files = [file_f1], nextPageToken = None\<rparr>),
       ConsoleLog ''Found item owned by target user: f1 (ID: F1)'',
       FilesCopy \<lparr>copy_fileId = ''F1'', copy_name = ''f1'', copy_parents = [''A''],
                  copy_fields = ''id,name''\<rparr>
         (Inr \<lparr>data_id = ''new++++++'', data_name = ''f1''\<rparr>),
       ConsoleLog ''Copied file: f1 (ID: new++++++)''])"
  by (simp add: run_defs example_defs numeral_2_eq_2)

section \<open>Replication only adds\<close>

text \<open>
  C9. The walk, the subtree copy and the file copy never call the client to change or
  remove an entry: none of their events is an update or a deletion, so every call they
  make is a listing, a folder creation or an item copy. Hence whatever view of the store
  only grows under the reading and creating calls only grows under the whole walk and the
  whole subtree copy: every entry there before is there, unchanged, after.
\<close>

theorem replication_only_adds:
  "(\<forall>e\<in>set (events (processFolder n drive folderId targetUserEmail rootOwnerEmail s)).
      \<not> mutates e)
   \<and> (\<forall>e\<in>set (events (copyFolderContents n drive sourceFolderId destFolderId targetUserEmail
                          rootOwnerEmail s)). \<not> mutates e)
   \<and> (\<forall>e\<in>set (events (copyFile drive fileId parentId fileName s)). \<not> mutates e)
   \<and> (only_adds drive entries \<longrightarrow>
        entries s \<subseteq> entries (state_of (processFolder n drive folderId targetUserEmail
                                          rootOwnerEmail s))
        \<and> entries s \<subseteq> entries (state_of (copyFolderContents n drive sourceFolderId
                                            destFolderId targetUserEmail rootOwnerEmail s))
        \<and> entries s \<subseteq> entries (state_of (copyFile drive fileId parentId fileName s)))"
proof (intro conjI impI)
  show "\<forall>e\<in>set (events (processFolder n drive folderId targetUserEmail rootOwnerEmail s)).
          \<not> mutates e"
    unfolding list_all_iff [symmetric] by (rule processFolder_events(1)) simp_all
  show "\<forall>e\<in>set (events (copyFolderContents n drive sourceFolderId destFolderId targetUserEmail
                          rootOwnerEmail s)). \<not> mutates e"
    unfolding list_all_iff [symmetric] by (rule copyFolderContents_events(1)) simp_all
  show "\<forall>e\<in>set (events (copyFile drive fileId parentId fileName s)). \<not> mutates e"
    unfolding list_all_iff [symmetric] by (rule copyFile_events) simp_all
next
  assume a: "only_adds drive entries"
  let ?I = "\<lambda>s'. entries s \<subseteq> entries s'"
  have k: "kept drive ?I"
    using a unfolding only_adds_def kept_def by blast
  show "entries s \<subseteq> entries (state_of (processFolder n drive folderId targetUserEmail
                                          rootOwnerEmail s))"
    by (rule processFolder_state(1) [where I = ?I, OF k]) simp
  show "entries s \<subseteq> entries (state_of (copyFolderContents n drive sourceFolderId
                                            destFolderId targetUserEmail rootOwnerEmail s))"
    by (rule copyFolderContents_state(1) [where I = ?I, OF k]) simp
  show "entries s \<subseteq> entries (state_of (copyFile drive fileId parentId fileName s))"
    by (rule copyFile_state [where I = ?I, OF k]) simp
qed

theorem replication_only_adds_witness:
  "only_adds (in_memory ''me'') set
   \<and> set example_tree \<subseteq> set (state_of (processFolder 2 (in_memory ''me'') ''R'' ''bob@x.com''
                                          ''alice@x.com'' example_tree))
   \<and> FilesCopy \<lparr>copy_fileId = ''F1'', copy_name = ''f1'', copy_parents = [''A''],
                 copy_fields = ''id,name''\<rparr> (Inr \<lparr>data_id = ''new++++++'', data_name = ''f1''\<rparr>)
       \<in> set (events (processFolder 2 (in_memory ''me'') ''R'' ''bob@x.com'' ''alice@x.com''
                         example_tree))
   \<and> \<not> mutates (FilesCopy \<lparr>copy_fileId = ''F1'', copy_name = ''f1'', copy_parents = [''A''],
                 copy_fields = ''id,name''\<rparr> (Inr \<lparr>data_id = ''new++++++'', data_name = ''f1''\<rparr>))"
proof -
  have a: "only_adds (in_memory ''me'') set"
    by (auto simp: only_adds_def split: list.splits)
  have m: "FilesCopy \<lparr>copy_fileId = ''F1'', copy_name = ''f1'', copy_parents = [''A''],
                 copy_fields = ''id,name''\<rparr> (Inr \<lparr>data_id = ''new++++++'', data_name = ''f1''\<rparr>)
       \<in> set (events (processFolder 2 (in_memory ''me'') ''R'' ''bob@x.com'' ''alice@x.com''
                         example_tree))"
    unfolding example_walk by simp
  from replication_only_adds [of 2 "in_memory ''me''" "''R''" "''bob@x.com''" "''alice@x.com''"
      example_tree, where entries = set] a m
  show ?thesis by blast
qed

section \<open>The top-level driver\<close>

text \<open>
  C7. When the owner metadata fetched for the root folder has no owner list or an empty
  one, the run fails before any traversal: the \<^verbatim>\<open>try\<close> block of \<^verbatim>\<open>main\<close> throws right after
  the fetch, and the only events of the whole run are that fetch and the error line of
  \<^verbatim>\<open>main\<close>, so no folder is listed, nothing is created and nothing is copied.
\<close>

theorem main_root_without_owner:
  assumes "files_get drive \<lparr>get_fileId = rootFolderId, get_fields = ''owners''\<rparr> s
             = (Inr rootFolder, s1)"
    and "data_owners rootFolder = None \<or> data_owners rootFolder = Some []"
  shows "main_try n drive (Inr ()) rootFolderId targetUserEmail s =
           (Threw (Error ''Could not determine the root folder owner''), s1,
            [FilesGet \<lparr>get_fileId = rootFolderId, get_fields = ''owners''\<rparr> (Inr rootFolder)])
         \<and> main n drive (Inr ()) rootFolderId targetUserEmail s =
           (Returned (), s1,
            [FilesGet \<lparr>get_fileId = rootFolderId, get_fields = ''owners''\<rparr> (Inr rootFolder),
             ConsoleError ''Error:'' (Error ''Could not determine the root folder owner'')])"
  using assms
  by (auto simp: main_def main_try_def drive_files_get_def answer_def console_error_def)

theorem main_root_without_owner_witness:
  "files_get scripted \<lparr>get_fileId = ''R'', get_fields = ''owners''\<rparr>
       [GetReply (Inr \<lparr>data_owners = Some []\<rparr>),
        ListReply (Inr \<lparr>files = [file_g1], nextPageToken = None\<rparr>)]
     = (Inr \<lparr>data_owners = Some []\<rparr>,
        [ListReply (Inr \<lparr>files = [file_g1], nextPageToken = None\<rparr>)])
   \<and> main 3 scripted (Inr ()) ''R'' ''alice@x.com''
       [GetReply (Inr \<lparr>data_owners = Some []\<rparr>),
        ListReply (Inr \<lparr>files = [file_g1], nextPageToken = None\<rparr>)]
     = (Returned (), [ListReply (Inr \<lparr>files = [file_g1], nextPageToken = None\<rparr>)],
        [FilesGet \<lparr>get_fileId = ''R'', get_fields = ''owners''\<rparr>
           (Inr \<lparr>data_owners = Some []\<rparr>),
         ConsoleError ''Error:'' (Error ''Could not determine the root folder owner'')])"
proof -
  have g: "files_get scripted \<lparr>get_fileId = ''R'', get_fields = ''owners''\<rparr>
       [GetReply (Inr \<lparr>data_owners = Some []\<rparr>),
        ListReply (Inr \<lparr>files = [file_g1], nextPageToken = None\<rparr>)]
     = (Inr \<lparr>data_owners = Some []\<rparr>,
        [ListReply (Inr \<lparr>files = [file_g1], nextPageToken = None\<rparr>)])"
    by simp
  have o: "data_owners \<lparr>data_owners = Some []\<rparr> = None
           \<or> data_owners \<lparr>data_owners = Some []\<rparr> = Some []"
    by simp
  from main_root_without_owner [OF g o, of 3 "''alice@x.com''"] g show ?thesis by simp
qed

section \<open>Failures of single operations\<close>

text \<open>
  C4, at an input where it fails. The walk reaches the folder \<^verbatim>\<open>A\<close> and then the file
  \<^verbatim>\<open>f1\<close>, both owned by the target, and the client rejects the creation of the new
  folder: the rejection is not caught, the walk throws it, no line names the item and
  \<^verbatim>\<open>f1\<close> is never copied although the client would have copied it. The subtree copy does
  the same. A rejected copy of a file, in contrast, is caught and logged with the file
  name, and the next item is handled.
\<close>

theorem create_failure_aborts:
  "processFolder_files 1 scripted ''R'' ''bob@x.com'' ''alice@x.com'' [folder_A, file_f1]
     [NewReply (Inl (GaxiosError ''rate limit'')),
      NewReply (Inr \<lparr>data_id = ''X'', data_name = ''f1''\<rparr>)]
   = (Threw (GaxiosError ''rate limit''),
      [NewReply (Inr \<lparr>data_id = ''X'', data_name = ''f1''\<rparr>)],
      [ConsoleLog ''Found item owned by target user: A (ID: A)'',
       FilesCreate \<lparr>create_name = ''A'', create_mimeType = FOLDER, create_parents = [''R''],
                    create_fields = ''id,name''\<rparr> (Inl (GaxiosError ''rate limit''))])
   \<and> copyFolderContents_files 1 scripted ''D'' ''bob@x.com'' ''alice@x.com'' [folder_A, file_f1]
     [NewReply (Inl (GaxiosError ''rate limit'')),
      NewReply (Inr \<lparr>data_id = ''X'', data_name = ''f1''\<rparr>)]
   = (Threw (GaxiosError ''rate limit''),
      [NewReply (Inr \<lparr>data_id = ''X'', data_name = ''f1''\<rparr>)],
      [FilesCreate \<lparr>create_name = ''A'', create_mimeType = FOLDER, create_parents = [''D''],
                    create_fields = ''id,name''\<rparr> (Inl (GaxiosError ''rate limit''))])
   \<and> processFolder_files 1 scripted ''R'' ''bob@x.com'' ''alice@x.com'' [file_f1, file_f1]
     [NewReply (Inl (GaxiosError ''rate limit'')),
      NewReply (Inr \<lparr>data_id = ''X'', data_name = ''f1''\<rparr>)]
   = (Returned (), [],
      [ConsoleLog ''Found item owned by target user: f1 (ID: F1)'',
       FilesCopy \<lparr>copy_fileId = ''F1'', copy_name = ''f1'', copy_parents = [''R''],
                  copy_fields = ''id,name''\<rparr> (Inl (GaxiosError ''rate limit'')),
       ConsoleError ''Error copying file f1:'' (GaxiosError ''rate limit''),
       ConsoleLog ''Found item owned by target user: f1 (ID: F1)'',
       FilesCopy \<lparr>copy_fileId = ''F1'', copy_name = ''f1'', copy_parents = [''R''],
                  copy_fields = ''id,name''\<rparr> (Inr \<lparr>data_id = ''X'', data_name = ''f1''\<rparr>),
       ConsoleLog ''Copied file: f1 (ID: X)''])"
  by (simp add: run_defs folder_A_def file_f1_def bob_def FOLDER_def)

section \<open>Fatal errors at the top level\<close>





section \<open>Runs that return\<close>







section \<open>Pagination\<close>

lemma pages_simps [simp]:
  "pages_announced [] = []" "pages_requested [] = []"
  "pages_announced (e # es) = page_announced e @ pages_announced es"
  "pages_requested (e # es) = page_requested e @ pages_requested es"
  "pages_announced (a @ b) = pages_announced a @ pages_announced b"
  "pages_requested (a @ b) = pages_requested a @ pages_requested b"
  by (simp_all add: pages_announced_def pages_requested_def)







section \<open>The subtree copy takes every child\<close>





section \<open>The walk goes into every folder\<close>




lemma descended_Nil [simp]: "descended []"
  by (simp add: descended_def)


lemma walk_listed_copy [simp]: "list_pageSize p = None \<Longrightarrow> walk_listed (FilesList p r) = []"
  by (cases r) simp_all





section \<open>Replication of an owned child\<close>



lemma items_listed_simps [simp]:
  "items_listed [] = 0"
  "items_listed (e # es) = length (listed e) + items_listed es"
  "items_listed (a @ b) = items_listed a + items_listed b"
  by (simp_all add: items_listed_def)





end
